theory Spec2Isabelle
  imports Complex_Main
begin

section \<open>JavaScript values\<close>

text \<open>
  The client is TypeScript; its casts (\<open>as string\<close>, \<open>as number\<close>, \<open>as any\<close>) vanish at
  run time, so the values that travel through it are plain JavaScript values.  A number is
  a finite value or \<open>NaN\<close>: finite doubles are embedded in the rationals, rounding and the
  infinities are not modelled.  \<open>JUndef\<close> is \<open>undefined\<close>.  An object lists each own
  property once.
\<close>

datatype number = NaN | Num rat

datatype jsval =
    JUndef
  | JNull
  | JBool bool
  | JNum number
  | JStr string
  | JArr "jsval list"
  | JObj "(string \<times> jsval) list"

text \<open>Truthiness, as \<open>!x\<close> and \<open>x || y\<close> test it.\<close>

fun truthy :: "jsval \<Rightarrow> bool" where
  "truthy JUndef = False"
| "truthy JNull = False"
| "truthy (JBool b) = b"
| "truthy (JNum NaN) = False"
| "truthy (JNum (Num r)) = (r \<noteq> 0)"
| "truthy (JStr s) = (s \<noteq> [])"
| "truthy (JArr xs) = True"
| "truthy (JObj kvs) = True"

text \<open>\<open>x || d\<close> on values.\<close>

definition js_or :: "jsval \<Rightarrow> jsval \<Rightarrow> jsval" where
  "js_or x d = (if truthy x then x else d)"

text \<open>\<open>s || d\<close> on an optional string: an absent and an empty string are both falsy.\<close>

definition str_or :: "string option \<Rightarrow> string \<Rightarrow> string" where
  "str_or x d = (case x of None \<Rightarrow> d | Some s \<Rightarrow> if s = [] then d else s)"

text \<open>\<open>n || d\<close> on an optional number: absent, \<open>0\<close> and \<open>NaN\<close> are falsy.\<close>

definition num_or :: "number option \<Rightarrow> rat \<Rightarrow> rat" where
  "num_or x d = (case x of None \<Rightarrow> d | Some NaN \<Rightarrow> d | Some (Num r) \<Rightarrow> if r = 0 then d else r)"

definition startsWith :: "string \<Rightarrow> string \<Rightarrow> bool" where
  "startsWith s p = (take (length p) s = p)"

text \<open>Decimal text of a natural number, as a template literal renders an integer.\<close>

definition digit_char :: "nat \<Rightarrow> char" where
  "digit_char d = ''0123456789'' ! d"

fun show_nat :: "nat \<Rightarrow> string" where
  "show_nat n = (if n < 10 then [digit_char n] else show_nat (n div 10) @ [digit_char (n mod 10)])"

declare show_nat.simps [simp del]

text \<open>
  Messages.  Text made of strings is computed; the text of a number that need not be an
  integer (\<open>String(x)\<close>, \<open>x.toFixed(2)\<close>), of a value that is not a string, and the wording
  the engine gives its own errors are kept as marked pieces rather than rendered.
\<close>

datatype piece =
    Txt string
  | NumTxt number
  | Fixed2 number
  | ValTxt jsval
  | EngineTxt string

type_synonym msg = "piece list"

fun to_msg :: "jsval \<Rightarrow> msg" where
  "to_msg (JStr s) = [Txt s]"
| "to_msg (JNum n) = [NumTxt n]"
| "to_msg v = [ValTxt v]"

section \<open>Error taxonomy (errors.ts)\<close>

text \<open>
  The class of an error, with the fields the subclass adds: \<open>retryAfter\<close> for
  \<open>RateLimitError\<close>, \<open>required\<close> and \<open>available\<close> for \<open>InsufficientFundsError\<close>.
\<close>

datatype err_class =
    VidSentryError
  | AuthenticationError
  | RateLimitError jsval
  | InsufficientFundsError number number
  | NotFoundError
  | TimeoutError
  | NetworkError

record sdk_error =
  cls :: err_class
  code :: string
  message :: msg
  details :: jsval

fun name_of :: "err_class \<Rightarrow> string" where
  "name_of VidSentryError = ''VidSentryError''"
| "name_of AuthenticationError = ''AuthenticationError''"
| "name_of (RateLimitError r) = ''RateLimitError''"
| "name_of (InsufficientFundsError r a) = ''InsufficientFundsError''"
| "name_of NotFoundError = ''NotFoundError''"
| "name_of TimeoutError = ''TimeoutError''"
| "name_of NetworkError = ''NetworkError''"

text \<open>An error of the engine or the platform: its \<open>name\<close> and its \<open>message\<close>.\<close>

record js_error =
  jname :: string
  jmessage :: msg

datatype thrown = Sdk sdk_error | Js js_error

definition TypeError :: "string \<Rightarrow> thrown" where
  "TypeError what = Js \<lparr>jname = ''TypeError'', jmessage = [EngineTxt what]\<rparr>"

text \<open>A constructor's default message applies when the argument is \<open>undefined\<close> (\<open>None\<close>).\<close>

definition new_VidSentryError :: "msg \<Rightarrow> string \<Rightarrow> jsval \<Rightarrow> sdk_error" where
  "new_VidSentryError m c d = \<lparr>cls = VidSentryError, code = c, message = m, details = d\<rparr>"

definition new_AuthenticationError :: "msg option \<Rightarrow> sdk_error" where
  "new_AuthenticationError m =
     \<lparr>cls = AuthenticationError, code = ''AUTHENTICATION_ERROR'',
      message = (case m of None \<Rightarrow> [Txt ''Invalid or expired API key''] | Some t \<Rightarrow> t),
      details = JUndef\<rparr>"

definition new_RateLimitError :: "msg option \<Rightarrow> jsval \<Rightarrow> sdk_error" where
  "new_RateLimitError m retryAfter =
     \<lparr>cls = RateLimitError retryAfter, code = ''RATE_LIMIT_ERROR'',
      message = (case m of None \<Rightarrow> [Txt ''Rate limit exceeded''] | Some t \<Rightarrow> t),
      details = JObj [(''retryAfter'', retryAfter)]\<rparr>"

text \<open>
  \<open>required.toFixed(2)\<close> is evaluated while the message is built: on a value that is not a
  number there is no such method and the constructor throws a \<open>TypeError\<close> instead of
  returning.
\<close>

fun new_InsufficientFundsError :: "jsval \<Rightarrow> jsval \<Rightarrow> thrown" where
  "new_InsufficientFundsError (JNum r) (JNum a) =
     Sdk \<lparr>cls = InsufficientFundsError r a, code = ''INSUFFICIENT_FUNDS'',
          message = [Txt ''Insufficient funds. Required: R'', Fixed2 r,
                     Txt '', Available: R'', Fixed2 a],
          details = JObj [(''required'', JNum r), (''available'', JNum a)]\<rparr>"
| "new_InsufficientFundsError (JNum r) a = TypeError ''available.toFixed''"
| "new_InsufficientFundsError r a = TypeError ''required.toFixed''"

definition new_NotFoundError :: "string \<Rightarrow> string \<Rightarrow> sdk_error" where
  "new_NotFoundError resource ident =
     \<lparr>cls = NotFoundError, code = ''NOT_FOUND'',
      message = [Txt (resource @ '' not found: '' @ ident)],
      details = JObj [(''resource'', JStr resource), (''id'', JStr ident)]\<rparr>"

definition new_TimeoutError :: "msg option \<Rightarrow> sdk_error" where
  "new_TimeoutError m =
     \<lparr>cls = TimeoutError, code = ''TIMEOUT_ERROR'',
      message = (case m of None \<Rightarrow> [Txt ''Request timed out''] | Some t \<Rightarrow> t),
      details = JUndef\<rparr>"

definition new_NetworkError :: "msg option \<Rightarrow> sdk_error" where
  "new_NetworkError m =
     \<lparr>cls = NetworkError, code = ''NETWORK_ERROR'',
      message = (case m of None \<Rightarrow> [Txt ''Network error''] | Some t \<Rightarrow> t),
      details = JUndef\<rparr>"

section \<open>Property access and \<open>parseInt\<close>\<close>

text \<open>
  \<open>v[k]\<close> and \<open>v.k\<close>: reading a property of \<open>null\<close> or \<open>undefined\<close> throws a
  \<open>TypeError\<close>; an array and a string have \<open>length\<close> and their indices; a property that is
  not there reads as \<open>undefined\<close>.  Inherited properties are not modelled: the client reads
  none.
\<close>

definition lookup :: "(string \<times> jsval) list \<Rightarrow> string \<Rightarrow> jsval" where
  "lookup kvs k = (case map_of kvs k of None \<Rightarrow> JUndef | Some v \<Rightarrow> v)"

definition indexed :: "jsval list \<Rightarrow> (string \<times> jsval) list" where
  "indexed xs = zip (map show_nat [0..<length xs]) xs"

fun js_get :: "jsval \<Rightarrow> string \<Rightarrow> thrown + jsval" where
  "js_get JUndef k = Inl (TypeError k)"
| "js_get JNull k = Inl (TypeError k)"
| "js_get (JObj kvs) k = Inr (lookup kvs k)"
| "js_get (JArr xs) k =
     Inr (if k = ''length'' then JNum (Num (of_nat (length xs))) else lookup (indexed xs) k)"
| "js_get (JStr s) k =
     Inr (if k = ''length'' then JNum (Num (of_nat (length s)))
          else lookup (indexed (map (\<lambda>c. JStr [c]) s)) k)"
| "js_get (JBool b) k = Inr JUndef"
| "js_get (JNum n) k = Inr JUndef"

text \<open>
  \<open>parseInt(s, 10)\<close>: leading white space is skipped, one sign is read, then the longest
  run of decimal digits; what follows is ignored, and with no digit the result is \<open>NaN\<close>.
\<close>

definition is_space :: "char \<Rightarrow> bool" where
  "is_space c = (c \<in> set [CHR '' '', CHR 0x09, CHR 0x0A, CHR 0x0B, CHR 0x0C, CHR 0x0D])"

definition is_digit :: "char \<Rightarrow> bool" where
  "is_digit c = (c \<in> set ''0123456789'')"

definition digit_val :: "char \<Rightarrow> nat" where
  "digit_val c =
     (case map_of (zip ''0123456789'' [0, 1, 2, 3, 4, 5, 6, 7, 8, 9]) c of
        None \<Rightarrow> 0
      | Some d \<Rightarrow> d)"

definition parseInt :: "string \<Rightarrow> number" where
  "parseInt s =
     (let t = dropWhile is_space s;
          signed = (t \<noteq> [] \<and> (hd t = CHR ''-'' \<or> hd t = CHR ''+''));
          neg = (t \<noteq> [] \<and> hd t = CHR ''-'');
          ds = takeWhile is_digit (if signed then tl t else t);
          n = foldl (\<lambda>a c. 10 * a + digit_val c) 0 ds
      in if ds = [] then NaN else Num (of_int (if neg then - int n else int n)))"

section \<open>The client and its world (client.ts)\<close>

text \<open>
  The configuration the caller passes (an optional field that is left out is \<open>None\<close>), and
  the four fields the constructor sets: \<open>this.apiKey\<close>, \<open>this.baseUrl\<close>, \<open>this.timeout\<close>,
  \<open>this.debug\<close>.
\<close>

record config =
  apiKey :: string
  baseUrl :: "string option"
  timeout :: "number option"
  debug :: "bool option"

record client =
  this_apiKey :: string
  this_baseUrl :: string
  this_timeout :: rat
  this_debug :: bool

definition DEFAULT_BASE_URL :: string where
  "DEFAULT_BASE_URL = ''https://cyzacqndakvnxhohmbgx.supabase.co''"

definition DEFAULT_TIMEOUT :: rat where
  "DEFAULT_TIMEOUT = 30000"

text \<open>
  What the network does with one \<open>fetch\<close>: the promise resolves with a response once the
  status line and headers are in, so many milliseconds after the call, or rejects, or stays
  pending.  Reading the body is a second wait: \<open>response.json()\<close> settles \<open>json_ms\<close> later
  with the decoded value or with an error.
\<close>

datatype body_read = Decoded jsval | Undecodable js_error

record response =
  http_status :: nat
  statusText :: string
  headers_list :: "(string \<times> string) list"
  json :: body_read
  json_ms :: nat

text \<open>
  \<open>response.headers.get(name)\<close>: the headers object keeps its names in lower case and looks
  a name up without regard to case; a header that is not there reads as \<open>null\<close> (\<open>None\<close>).
\<close>

definition lower :: "char \<Rightarrow> char" where
  "lower c =
     (case map_of (zip ''ABCDEFGHIJKLMNOPQRSTUVWXYZ'' ''abcdefghijklmnopqrstuvwxyz'') c of
        None \<Rightarrow> c
      | Some l \<Rightarrow> l)"

definition headers_get :: "response \<Rightarrow> string \<Rightarrow> string option" where
  "headers_get r name = map_of (headers_list r) (map lower name)"

definition ok :: "response \<Rightarrow> bool" where
  "ok r = (200 \<le> http_status r \<and> http_status r \<le> 299)"

datatype fetch_behaviour =
    Resolves nat response
  | Rejects nat js_error
  | Pending

record http_call =
  url :: string
  http_method :: string
  headers :: "(string \<times> string) list"
  body :: "jsval option"

text \<open>
  Everything outside the client that it reads or changes: the clock (\<open>Date.now()\<close>), the
  \<open>fetch\<close> calls issued so far, what the network does with the first, second, ... call
  (a call past the end of the list is never answered), the timers that are armed, the calls
  cancelled through their abort signal, the console, the delays \<open>sleep\<close> has asked for, and
  how late the timer of the first, second, ... \<open>sleep\<close> fires (on time past the end of the
  list).
\<close>

record world =
  now :: int
  sent :: "http_call list"
  net :: "fetch_behaviour list"
  timers :: "nat list"
  next_timer :: nat
  aborted :: "nat list"
  console :: "string list"
  naps :: "rat list"
  lag :: "nat list"

definition reply :: "world \<Rightarrow> nat \<Rightarrow> fetch_behaviour" where
  "reply w i = (if i < length (net w) then net w ! i else Pending)"

definition lateness :: "world \<Rightarrow> nat \<Rightarrow> nat" where
  "lateness w i = (if i < length (lag w) then lag w ! i else 0)"

definition idle :: world where
  "idle = \<lparr>now = 0, sent = [], net = [], timers = [], next_timer = 0, aborted = [],
           console = [], naps = [], lag = []\<rparr>"

text \<open>
  A timer set for \<open>ms\<close> fires no earlier than \<open>ms\<close> milliseconds later (at once for a delay
  that is not positive); the platform's ceiling on delays is not modelled.
\<close>

definition delay_ms :: "rat \<Rightarrow> nat" where
  "delay_ms ms = nat \<lceil>ms\<rceil>"

definition setTimeout :: "world \<Rightarrow> world" where
  "setTimeout w = w\<lparr>timers := next_timer w # timers w, next_timer := Suc (next_timer w)\<rparr>"

definition clearTimeout :: "nat \<Rightarrow> world \<Rightarrow> world" where
  "clearTimeout t w = w\<lparr>timers := removeAll t (timers w)\<rparr>"

definition tick :: "nat \<Rightarrow> world \<Rightarrow> world" where
  "tick ms w = w\<lparr>now := now w + int ms\<rparr>"

definition new_VidSentry :: "config \<Rightarrow> world \<Rightarrow> (thrown + client) \<times> world" where
  "new_VidSentry cfg w =
     (if apiKey cfg = [] then
        (Inl (Sdk (new_AuthenticationError (Some [Txt ''API key is required'']))), w)
      else if \<not> startsWith (apiKey cfg) ''vs_'' then
        (Inl (Sdk (new_AuthenticationError (Some
           [Txt ''Invalid API key format. Keys should start with vs_live_ or vs_test_'']))), w)
      else
        (Inr \<lparr>this_apiKey = apiKey cfg,
              this_baseUrl = str_or (baseUrl cfg) DEFAULT_BASE_URL,
              this_timeout = num_or (timeout cfg) DEFAULT_TIMEOUT,
              this_debug = (case debug cfg of None \<Rightarrow> False | Some b \<Rightarrow> b)\<rparr>, w))"

subsection \<open>Transport\<close>

definition handleErrorResponse :: "response \<Rightarrow> thrown" where
  "handleErrorResponse r =
     (let errorData = (case json r of Decoded v \<Rightarrow> v | Undecodable e \<Rightarrow> JObj []) in
      case js_get errorData ''error'' of
        Inl t \<Rightarrow> t
      | Inr err \<Rightarrow>
          let m = (if truthy err then to_msg err else [Txt (statusText r)]) in
          if http_status r = 401 then Sdk (new_AuthenticationError (Some m))
          else if http_status r = 403 then
            Sdk (new_AuthenticationError
                   (Some [Txt ''API key does not have permission for this action'']))
          else if http_status r = 404 then Sdk (new_NotFoundError ''Resource'' ''unknown'')
          else if http_status r = 429 then
            Sdk (new_RateLimitError (Some m)
                   (JNum (parseInt (str_or (headers_get r ''Retry-After'') ''60''))))
          else if http_status r = 402 then
            (case js_get errorData ''required'' of
               Inl t \<Rightarrow> t
             | Inr req \<Rightarrow>
                 (case js_get errorData ''available'' of
                    Inl t \<Rightarrow> t
                  | Inr av \<Rightarrow>
                      new_InsufficientFundsError (js_or req (JNum (Num 0)))
                                                 (js_or av (JNum (Num 0)))))
          else Sdk (new_VidSentryError m (''HTTP_'' @ show_nat (http_status r)) errorData))"

text \<open>The \<open>catch\<close> block of \<open>request\<close>.\<close>

definition request_catch :: "nat \<Rightarrow> thrown \<Rightarrow> world \<Rightarrow> (thrown + jsval) \<times> world" where
  "request_catch timeoutId err w =
     (Inl (case err of
             Sdk e \<Rightarrow> Sdk e
           | Js e \<Rightarrow>
               if jname e = ''AbortError'' then Sdk (new_TimeoutError None)
               else Sdk (new_NetworkError (Some (jmessage e)))),
      clearTimeout timeoutId w)"

text \<open>
  The deadline timer fires while call \<open>i\<close> is still pending: the timer is spent, the abort
  signal cancels the call, and \<open>fetch\<close> rejects with an \<open>AbortError\<close>.
\<close>

definition AbortError :: thrown where
  "AbortError = Js \<lparr>jname = ''AbortError'', jmessage = [EngineTxt ''abort'']\<rparr>"

definition deadline :: "nat \<Rightarrow> nat \<Rightarrow> nat \<Rightarrow> world \<Rightarrow> (thrown + jsval) \<times> world" where
  "deadline timeoutId i d w =
     request_catch timeoutId AbortError
       ((tick d w)\<lparr>timers := removeAll timeoutId (timers w), aborted := i # aborted w\<rparr>)"

text \<open>
  One call.  The deadline timer is armed first; the fetch then races it, and a fetch that
  settles before the delay of the timer has passed wins.  The body goes out when it is
  truthy (\<open>options.body ? JSON.stringify(options.body) : undefined\<close>); the call is logged
  with the value that is serialised.
\<close>

definition request ::
  "client \<Rightarrow> string \<Rightarrow> string \<Rightarrow> jsval option \<Rightarrow> world \<Rightarrow> (thrown + jsval) \<times> world" where
  "request c path meth bdy w0 =
     (let timeoutId = next_timer w0;
          d = delay_ms (this_timeout c);
          w1 = setTimeout w0;
          w2 = (if this_debug c
                then w1\<lparr>console := console w1 @ [''[VidSentry] '' @ meth @ '' '' @ path]\<rparr>
                else w1);
          i = length (sent w2);
          w3 = w2\<lparr>sent := sent w2 @
                 [\<lparr>url = this_baseUrl c @ path, http_method = meth,
                   headers = [(''Content-Type'', ''application/json''),
                              (''Authorization'', ''Bearer '' @ this_apiKey c),
                              (''apikey'', this_apiKey c)],
                   body = (case bdy of
                             None \<Rightarrow> None
                           | Some v \<Rightarrow> if truthy v then Some v else None)\<rparr>]\<rparr>
      in case reply w3 i of
           Resolves dt r \<Rightarrow>
             if dt < d then
               (let w4 = tick (json_ms r) (clearTimeout timeoutId (tick dt w3)) in
                if \<not> ok r then request_catch timeoutId (handleErrorResponse r) w4
                else (case json r of
                        Decoded v \<Rightarrow> (Inr v, w4)
                      | Undecodable e \<Rightarrow> request_catch timeoutId (Js e) w4))
             else deadline timeoutId i d w3
         | Rejects dt e \<Rightarrow>
             if dt < d then request_catch timeoutId (Js e) (tick dt w3)
             else deadline timeoutId i d w3
         | Pending \<Rightarrow> deadline timeoutId i d w3)"

subsection \<open>Domain operations\<close>

datatype tier = Standard | Premium

fun tier_str :: "tier \<Rightarrow> string" where
  "tier_str Standard = ''standard''"
| "tier_str Premium = ''premium''"

record settings =
  blur :: "bool option"
  mute :: "bool option"
  visualSensitivity :: "number option"
  audioSensitivity :: "number option"

record moderate_options =
  videoUrl :: "string option"
  gcsUri :: "string option"
  filePath :: "string option"
  title :: "string option"
  tier :: "tier option"
  settings :: "settings option"

text \<open>
  The body of the call: a locator that is absent is a property whose value is \<open>undefined\<close>;
  a settings object has the properties the caller gave it and no others.
\<close>

definition str_val :: "string option \<Rightarrow> jsval" where
  "str_val x = (case x of None \<Rightarrow> JUndef | Some s \<Rightarrow> JStr s)"

definition field :: "string \<Rightarrow> 'a option \<Rightarrow> ('a \<Rightarrow> jsval) \<Rightarrow> (string \<times> jsval) list" where
  "field k x f = (case x of None \<Rightarrow> [] | Some v \<Rightarrow> [(k, f v)])"

definition settings_val :: "settings \<Rightarrow> jsval" where
  "settings_val s =
     JObj (field ''blur'' (blur s) JBool @ field ''mute'' (mute s) JBool @
           field ''visualSensitivity'' (visualSensitivity s) JNum @
           field ''audioSensitivity'' (audioSensitivity s) JNum)"

definition falsy_str :: "string option \<Rightarrow> bool" where
  "falsy_str x = (x = None \<or> x = Some [])"

definition moderate_body :: "moderate_options \<Rightarrow> jsval" where
  "moderate_body options =
     JObj [(''title'', JStr (str_or (title options) ''SDK Upload'')),
           (''videoUrl'', str_val (videoUrl options)),
           (''gcsUri'', str_val (gcsUri options)),
           (''filePath'', str_val (filePath options)),
           (''tier'', JStr (tier_str (case tier options of None \<Rightarrow> Standard | Some t \<Rightarrow> t))),
           (''settings'',
              (case settings options of
                 None \<Rightarrow> JObj [(''blur'', JBool True), (''mute'', JBool True)]
               | Some s \<Rightarrow> settings_val s))]"

definition moderate :: "client \<Rightarrow> moderate_options \<Rightarrow> world \<Rightarrow> (thrown + jsval) \<times> world" where
  "moderate c options w =
     (if falsy_str (videoUrl options) \<and> falsy_str (gcsUri options) \<and> falsy_str (filePath options)
      then (Inl (Sdk (new_VidSentryError
                        [Txt ''One of videoUrl, gcsUri, or filePath is required'']
                        ''VALIDATION_ERROR'' JUndef)), w)
      else request c ''/functions/v1/unified-moderate'' ''POST'' (Some (moderate_body options)) w)"

record job =
  id' :: jsval
  videoId :: jsval
  status :: jsval
  originalUrl :: jsval
  moderatedUrl :: jsval
  detections :: jsval
  geminiAnalysis :: jsval
  errorMessage :: jsval
  processingStartedAt :: jsval
  processingCompletedAt :: jsval
  createdAt :: jsval

text \<open>
  The properties of the first element, read one by one.  The first read throws when the
  element is \<open>null\<close> or \<open>undefined\<close>; once it has not, the later reads cannot.
\<close>

definition peek :: "jsval \<Rightarrow> string \<Rightarrow> jsval" where
  "peek v k = (case js_get v k of Inl t \<Rightarrow> JUndef | Inr x \<Rightarrow> x)"

definition remap :: "jsval \<Rightarrow> thrown + job" where
  "remap j =
     (case js_get j ''id'' of
        Inl t \<Rightarrow> Inl t
      | Inr i \<Rightarrow>
          Inr \<lparr>id' = i, videoId = peek j ''video_id'', status = peek j ''status'',
               originalUrl = peek j ''original_url'', moderatedUrl = peek j ''moderated_url'',
               detections = peek j ''detections'', geminiAnalysis = peek j ''gemini_analysis'',
               errorMessage = peek j ''error_msg'',
               processingStartedAt = peek j ''processing_started_at'',
               processingCompletedAt = peek j ''processing_completed_at'',
               createdAt = peek j ''created_at''\<rparr>)"

definition getJobStatus :: "client \<Rightarrow> string \<Rightarrow> world \<Rightarrow> (thrown + job) \<times> world" where
  "getJobStatus c jobId w =
     (case request c (''/rest/v1/moderation_jobs?id=eq.'' @ jobId @ ''&select=*'') ''GET'' None w of
        (Inl t, w') \<Rightarrow> (Inl t, w')
      | (Inr response, w') \<Rightarrow>
          if \<not> truthy response \<or> js_get response ''length'' = Inr (JNum (Num 0))
          then (Inl (Sdk (new_NotFoundError ''Job'' jobId)), w')
          else (case js_get response ''0'' of
                  Inl t \<Rightarrow> (Inl t, w')
                | Inr j \<Rightarrow> (remap j, w')))"

definition getSignedUrl :: "client \<Rightarrow> string \<Rightarrow> world \<Rightarrow> (thrown + jsval \<times> jsval) \<times> world" where
  "getSignedUrl c vid w =
     (case request c ''/functions/v1/get-signed-video-url'' ''POST''
             (Some (JObj [(''videoId'', JStr vid)])) w of
        (Inl t, w') \<Rightarrow> (Inl t, w')
      | (Inr response, w') \<Rightarrow>
          (case js_get response ''signedUrl'' of
             Inl t \<Rightarrow> (Inl t, w')
           | Inr u \<Rightarrow>
               (case js_get response ''expiresAt'' of
                  Inl t \<Rightarrow> (Inl t, w')
                | Inr e \<Rightarrow> (Inr (u, e), w'))))"

definition getMetrics :: "client \<Rightarrow> world \<Rightarrow> (thrown + jsval) \<times> world" where
  "getMetrics c w = request c ''/functions/v1/public-metrics'' ''GET'' None w"

subsection \<open>Completion poller\<close>

definition terminal :: "jsval \<Rightarrow> bool" where
  "terminal s = (s \<in> set [JStr ''moderated'', JStr ''blurred'', JStr ''error'', JStr ''cancelled''])"

text \<open>\<open>sleep\<close> resolves when its timer fires: the delay asked for, and the lateness of the timer.\<close>

definition sleep :: "rat \<Rightarrow> world \<Rightarrow> world" where
  "sleep ms w = (tick (delay_ms ms + lateness w (length (naps w))) w)\<lparr>naps := naps w @ [ms]\<rparr>"

text \<open>
  How the loop ends: the job of a terminal status is returned, the loop condition fails, or
  a status fetch throws.  The loop may run for ever (nothing in it forces the clock to
  advance when the poll interval is negative), so its result is optional: \<open>None\<close> is a call
  that never returns.
\<close>

datatype poll_end = Returned job | TimedOut | Propagated thrown

partial_function (option) poll ::
  "client \<Rightarrow> string \<Rightarrow> rat \<Rightarrow> rat \<Rightarrow> int \<Rightarrow> world \<Rightarrow> (poll_end \<times> world) option" where
  "poll c jobId maxWait pollInterval startTime w =
     (if of_int (now w - startTime) < maxWait then
        (case getJobStatus c jobId w of
           (Inl t, w') \<Rightarrow> Some (Propagated t, w')
         | (Inr j, w') \<Rightarrow>
             if terminal (status j) then Some (Returned j, w')
             else poll c jobId maxWait pollInterval startTime (sleep pollInterval w'))
      else Some (TimedOut, w))"

definition poll_timeout :: "string \<Rightarrow> rat \<Rightarrow> sdk_error" where
  "poll_timeout jobId maxWait =
     new_TimeoutError (Some [Txt (''Job '' @ jobId @ '' did not complete within ''),
                             NumTxt (Num (maxWait / 1000)), Txt '' seconds''])"

fun finish :: "string \<Rightarrow> rat \<Rightarrow> poll_end \<Rightarrow> thrown + job" where
  "finish jobId maxWait (Returned j) = Inr j"
| "finish jobId maxWait TimedOut = Inl (Sdk (poll_timeout jobId maxWait))"
| "finish jobId maxWait (Propagated t) = Inl t"

record wait_options =
  maxWait :: "number option"
  pollInterval :: "number option"

definition waitForCompletion ::
  "client \<Rightarrow> string \<Rightarrow> wait_options \<Rightarrow> world \<Rightarrow> ((thrown + job) \<times> world) option" where
  "waitForCompletion c jobId options w =
     (let maxWait = num_or (maxWait options) 300000;
          pollInterval = num_or (pollInterval options) 5000;
          startTime = now w
      in map_option (\<lambda>(e, w'). (finish jobId maxWait e, w'))
           (poll c jobId maxWait pollInterval startTime w))"

section \<open>Notions used in the statements\<close>




text \<open>
  What a finished run of the polling loop has left behind, \<open>n\<close> being the number of status
  fetches it made: the delays it slept for, and where its result comes from.
\<close>

definition trace_ok :: "client \<Rightarrow> string \<Rightarrow> rat \<Rightarrow> world \<Rightarrow> poll_end \<times> world \<Rightarrow> bool" where
  "trace_ok c jobId P w y =
     (\<exists>n. length (sent (snd y)) = length (sent w) + n \<and>
           (case fst y of
              Returned j \<Rightarrow> 0 < n \<and> naps (snd y) = naps w @ replicate (n - 1) P \<and>
                terminal (status j) \<and> (\<exists>ws. getJobStatus c jobId ws = (Inr j, snd y))
            | TimedOut \<Rightarrow> naps (snd y) = naps w @ replicate n P
            | Propagated t \<Rightarrow> 0 < n \<and> naps (snd y) = naps w @ replicate (n - 1) P \<and>
                (\<exists>ws. getJobStatus c jobId ws = (Inl t, snd y))))"

section \<open>Sample inputs\<close>

text \<open>Concrete clients and responses on which the theorems below are exercised.\<close>

definition sample_client :: client where
  "sample_client = \<lparr>this_apiKey = ''vs_test_key'', this_baseUrl = ''https://api.test'',
                     this_timeout = 30000, this_debug = False\<rparr>"

definition ok_response :: "jsval \<Rightarrow> response" where
  "ok_response v =
     \<lparr>http_status = 200, statusText = ''OK'', headers_list = [], json = Decoded v, json_ms = 5\<rparr>"

definition error_response :: "nat \<Rightarrow> (string \<times> string) list \<Rightarrow> jsval \<Rightarrow> response" where
  "error_response st hs v =
     \<lparr>http_status = st, statusText = ''Error'', headers_list = hs, json = Decoded v, json_ms = 5\<rparr>"

text \<open>
  A network that answers the first status fetch with a pending job and the second with the
  same job moderated, each after 10 ms with 5 ms more for the body; and what a client that
  polls it with the default options sends, gets and leaves.
\<close>

definition wire_job :: "string \<Rightarrow> jsval" where
  "wire_job st = JArr [JObj [(''id'', JStr ''job-1''), (''video_id'', JStr ''v-9''), (''status'', JStr st)]]"

definition two_polls :: world where
  "two_polls = idle\<lparr>net := [Resolves 10 (ok_response (wire_job ''pending'')),
                           Resolves 10 (ok_response (wire_job ''moderated''))]\<rparr>"

definition status_call :: http_call where
  "status_call =
     \<lparr>url = ''https://api.test/rest/v1/moderation_jobs?id=eq.job-1&select=*'', http_method = ''GET'',
      headers = [(''Content-Type'', ''application/json''),
                 (''Authorization'', ''Bearer vs_test_key''), (''apikey'', ''vs_test_key'')],
      body = None\<rparr>"

definition moderated_job :: job where
  "moderated_job =
     \<lparr>id' = JStr ''job-1'', videoId = JStr ''v-9'', status = JStr ''moderated'',
      originalUrl = JUndef, moderatedUrl = JUndef, detections = JUndef,
      geminiAnalysis = JUndef, errorMessage = JUndef, processingStartedAt = JUndef,
      processingCompletedAt = JUndef, createdAt = JUndef\<rparr>"

definition after_two_polls :: world where
  "after_two_polls =
     two_polls\<lparr>now := 5030, sent := [status_call, status_call], next_timer := 2, naps := [5000]\<rparr>"

section \<open>Construction\<close>

text \<open>
  C7.  Constructing a client with an empty API key, or with a key that does not start with
  the prefix \<open>vs_\<close>, raises an Authentication error with code \<open>AUTHENTICATION_ERROR\<close>;
  and whatever the configuration, construction leaves the world as it found it: no call is
  issued, before the error or after.
\<close>

theorem constructor_rejects_bad_key:
  "snd (new_VidSentry cfg w) = w \<and>
   (apiKey cfg = [] \<or> \<not> startsWith (apiKey cfg) ''vs_'' \<longrightarrow>
      (\<exists>e. fst (new_VidSentry cfg w) = Inl (Sdk e) \<and> cls e = AuthenticationError \<and>
           code e = ''AUTHENTICATION_ERROR''))"
  by (auto simp: new_VidSentry_def new_AuthenticationError_def)

theorem constructor_rejects_bad_key_witness:
  "\<not> startsWith (apiKey \<lparr>apiKey = ''sk_live_1'', baseUrl = None, timeout = None, debug = None\<rparr>) ''vs_'' \<and>
   (\<exists>e. fst (new_VidSentry \<lparr>apiKey = ''sk_live_1'', baseUrl = None, timeout = None, debug = None\<rparr> idle)
           = Inl (Sdk e) \<and>
        cls e = AuthenticationError \<and> code e = ''AUTHENTICATION_ERROR'') \<and>
   (\<exists>e. fst (new_VidSentry \<lparr>apiKey = [], baseUrl = None, timeout = None, debug = None\<rparr> idle)
           = Inl (Sdk e) \<and>
        cls e = AuthenticationError \<and> code e = ''AUTHENTICATION_ERROR'')"
  using constructor_rejects_bad_key
          [of "\<lparr>apiKey = ''sk_live_1'', baseUrl = None, timeout = None, debug = None\<rparr>" idle]
        constructor_rejects_bad_key
          [of "\<lparr>apiKey = [], baseUrl = None, timeout = None, debug = None\<rparr>" idle]
  by (simp add: startsWith_def)

text \<open>
  C10.  Every API key that begins with the three characters \<open>vs_\<close> is accepted:
  construction returns a client holding that key and raises nothing.  The key \<open>vs_x\<close>,
  which begins with neither \<open>vs_live_\<close> nor \<open>vs_test_\<close>, is one of them.  Yet the message
  raised for a key of another prefix names \<open>vs_live_\<close> and \<open>vs_test_\<close> only.
\<close>

theorem constructor_accepts_vs_prefix:
  "(startsWith (apiKey cfg) ''vs_'' \<longrightarrow>
      (\<exists>c. new_VidSentry cfg w = (Inr c, w) \<and> this_apiKey c = apiKey cfg)) \<and>
   (apiKey cfg \<noteq> [] \<and> \<not> startsWith (apiKey cfg) ''vs_'' \<longrightarrow>
      (\<exists>e. new_VidSentry cfg w = (Inl (Sdk e), w) \<and>
           message e =
             [Txt ''Invalid API key format. Keys should start with vs_live_ or vs_test_'']))"
proof (intro conjI impI)
  assume "startsWith (apiKey cfg) ''vs_''"
  then have "apiKey cfg \<noteq> []" by (auto simp: startsWith_def)
  with \<open>startsWith (apiKey cfg) ''vs_''\<close>
  show "\<exists>c. new_VidSentry cfg w = (Inr c, w) \<and> this_apiKey c = apiKey cfg"
    by (simp add: new_VidSentry_def)
next
  assume "apiKey cfg \<noteq> [] \<and> \<not> startsWith (apiKey cfg) ''vs_''"
  then show "\<exists>e. new_VidSentry cfg w = (Inl (Sdk e), w) \<and>
           message e =
             [Txt ''Invalid API key format. Keys should start with vs_live_ or vs_test_'']"
    by (simp add: new_VidSentry_def new_AuthenticationError_def)
qed

theorem constructor_accepts_vs_prefix_witness:
  "startsWith ''vs_x'' ''vs_'' \<and> \<not> startsWith ''vs_x'' ''vs_live_'' \<and>
   \<not> startsWith ''vs_x'' ''vs_test_'' \<and>
   (\<exists>c. new_VidSentry \<lparr>apiKey = ''vs_x'', baseUrl = None, timeout = None, debug = None\<rparr> idle
          = (Inr c, idle) \<and>
        this_apiKey c = ''vs_x'') \<and>
   (\<exists>e. new_VidSentry \<lparr>apiKey = ''key_1'', baseUrl = None, timeout = None, debug = None\<rparr> idle
          = (Inl (Sdk e), idle) \<and>
        message e =
          [Txt ''Invalid API key format. Keys should start with vs_live_ or vs_test_''])"
  using constructor_accepts_vs_prefix
          [of "\<lparr>apiKey = ''vs_x'', baseUrl = None, timeout = None, debug = None\<rparr>" idle]
        constructor_accepts_vs_prefix
          [of "\<lparr>apiKey = ''key_1'', baseUrl = None, timeout = None, debug = None\<rparr>" idle]
  by (simp add: startsWith_def)

section \<open>What a request leaves behind\<close>

lemma request_sent:
  "sent (snd (request c path meth bdy w)) =
     sent w @ [\<lparr>url = this_baseUrl c @ path, http_method = meth,
                headers = [(''Content-Type'', ''application/json''),
                           (''Authorization'', ''Bearer '' @ this_apiKey c),
                           (''apikey'', this_apiKey c)],
                body = (case bdy of
                          None \<Rightarrow> None
                        | Some v \<Rightarrow> if truthy v then Some v else None)\<rparr>]"
  by (simp add: request_def Let_def request_catch_def deadline_def tick_def clearTimeout_def
        setTimeout_def split: fetch_behaviour.split body_read.split)

lemma request_frame:
  "naps (snd (request c path meth bdy w)) = naps w \<and>
   lag (snd (request c path meth bdy w)) = lag w \<and>
   net (snd (request c path meth bdy w)) = net w \<and>
   now w \<le> now (snd (request c path meth bdy w))"
  by (simp add: request_def Let_def request_catch_def deadline_def tick_def clearTimeout_def
        setTimeout_def split: fetch_behaviour.split body_read.split)

lemma reply_update [simp]:
  "reply (w\<lparr>sent := s\<rparr>) i = reply w i" "reply (w\<lparr>console := k\<rparr>) i = reply w i"
  "reply (w\<lparr>timers := t\<rparr>) i = reply w i" "reply (w\<lparr>next_timer := n\<rparr>) i = reply w i"
  by (simp_all add: reply_def)


section \<open>Non-2xx responses\<close>









text \<open>
  Reading the \<open>Retry-After\<close> header of a 429 response: without the header the error
  carries \<open>retryAfter = 60\<close>, with the header \<open>120\<close> it carries 120.
\<close>

theorem retry_after_read:
  "fst (request sample_client ''/functions/v1/public-metrics'' ''GET'' None
          (idle\<lparr>net := [Resolves 10 (error_response 429 [] (JObj []))]\<rparr>))
     = Inl (Sdk (new_RateLimitError (Some [Txt ''Error'']) (JNum (Num 60)))) \<and>
   fst (request sample_client ''/functions/v1/public-metrics'' ''GET'' None
          (idle\<lparr>net := [Resolves 10 (error_response 429 [(''retry-after'', ''120'')] (JObj []))]\<rparr>))
     = Inl (Sdk (new_RateLimitError (Some [Txt ''Error'']) (JNum (Num 120))))"
  by (simp add: request_def Let_def reply_def idle_def setTimeout_def sample_client_def
        error_response_def delay_ms_def ok_def tick_def clearTimeout_def request_catch_def
        handleErrorResponse_def lookup_def headers_get_def lower_def
        str_or_def parseInt_def is_space_def is_digit_def digit_val_def)

text \<open>
  C8 at a header that is no integer, here the date form of \<open>Retry-After\<close>: \<open>parseInt\<close>
  yields \<open>NaN\<close>, and \<open>NaN\<close>, not 60, is what the error carries.
\<close>

theorem retry_after_unparsable:
  "fst (request sample_client ''/functions/v1/public-metrics'' ''GET'' None
          (idle\<lparr>net := [Resolves 10 (error_response 429
             [(''retry-after'', ''Wed, 21 Oct 2015 07:28:00 GMT'')]
             (JObj [(''error'', JStr ''slow down'')]))]\<rparr>))
     = Inl (Sdk \<lparr>cls = RateLimitError (JNum NaN), code = ''RATE_LIMIT_ERROR'',
                  message = [Txt ''slow down''],
                  details = JObj [(''retryAfter'', JNum NaN)]\<rparr>)"
  by (simp add: request_def Let_def reply_def idle_def setTimeout_def sample_client_def
        error_response_def delay_ms_def ok_def tick_def clearTimeout_def request_catch_def
        handleErrorResponse_def lookup_def new_RateLimitError_def headers_get_def lower_def
        str_or_def parseInt_def is_space_def is_digit_def)

section \<open>The deadline of a request\<close>





section \<open>Submitting a job\<close>

text \<open>
  C6.  When none of \<open>videoUrl\<close>, \<open>gcsUri\<close> and \<open>filePath\<close> is present, \<open>moderate\<close> raises
  the generic error with code \<open>VALIDATION_ERROR\<close> and hands back the world it was given:
  nothing was sent, the transport was never entered.
\<close>

theorem moderate_requires_locator:
  assumes "videoUrl options = None" and "gcsUri options = None" and "filePath options = None"
  shows "\<exists>e. moderate c options w = (Inl (Sdk e), w) \<and> cls e = VidSentryError \<and>
             code e = ''VALIDATION_ERROR''"
  using assms by (simp add: moderate_def falsy_str_def new_VidSentryError_def)

theorem moderate_requires_locator_witness:
  "\<exists>e. moderate sample_client
          \<lparr>videoUrl = None, gcsUri = None, filePath = None, title = Some ''clip'',
           tier = Some Premium, settings = None\<rparr>
          (idle\<lparr>net := [Resolves 10 (ok_response JNull)]\<rparr>)
        = (Inl (Sdk e), idle\<lparr>net := [Resolves 10 (ok_response JNull)]\<rparr>) \<and>
       cls e = VidSentryError \<and> code e = ''VALIDATION_ERROR''"
  using moderate_requires_locator
          [where options = "\<lparr>videoUrl = None, gcsUri = None, filePath = None,
                               title = Some ''clip'', tier = Some Premium, settings = None\<rparr>"
             and c = sample_client and w = "idle\<lparr>net := [Resolves 10 (ok_response JNull)]\<rparr>"]
  by simp

text \<open>
  C9, as the code has it.  A request with at least one locator issues exactly one call, a
  \<open>POST\<close> to the moderation path, whose body holds: the title, or \<open>SDK Upload\<close> when the
  title is absent or empty; the three locators as given; the tier, or \<open>standard\<close> when
  absent; the settings as given, or \<open>{blur: true, mute: true}\<close> when absent.
\<close>

theorem moderate_posts_once:
  assumes "\<not> (falsy_str (videoUrl options) \<and> falsy_str (gcsUri options) \<and>
              falsy_str (filePath options))"
  shows "\<exists>call. sent (snd (moderate c options w)) = sent w @ [call] \<and>
           http_method call = ''POST'' \<and>
           url call = this_baseUrl c @ ''/functions/v1/unified-moderate'' \<and>
           body call = Some (JObj
             [(''title'', JStr (case title options of
                                  None \<Rightarrow> ''SDK Upload''
                                | Some t \<Rightarrow> if t = [] then ''SDK Upload'' else t)),
              (''videoUrl'', str_val (videoUrl options)),
              (''gcsUri'', str_val (gcsUri options)),
              (''filePath'', str_val (filePath options)),
              (''tier'', JStr (case tier options of
                                 None \<Rightarrow> ''standard''
                               | Some t \<Rightarrow> tier_str t)),
              (''settings'', (case settings options of
                                None \<Rightarrow> JObj [(''blur'', JBool True), (''mute'', JBool True)]
                              | Some s \<Rightarrow> settings_val s))])"
proof -
  have "moderate c options w =
          request c ''/functions/v1/unified-moderate'' ''POST'' (Some (moderate_body options)) w"
    using assms by (auto simp: moderate_def)
  then show ?thesis
    by (simp add: request_sent moderate_body_def str_or_def split: option.split)
qed

theorem moderate_posts_once_witness:
  "map body (sent (snd (moderate sample_client
       \<lparr>videoUrl = Some ''https://x/video.mp4'', gcsUri = None, filePath = None, title = None,
        tier = None, settings = None\<rparr>
       (idle\<lparr>net := [Resolves 10 (ok_response JNull)]\<rparr>)))) =
   [Some (JObj [(''title'', JStr ''SDK Upload''), (''videoUrl'', JStr ''https://x/video.mp4''),
                (''gcsUri'', JUndef), (''filePath'', JUndef), (''tier'', JStr ''standard''),
                (''settings'', JObj [(''blur'', JBool True), (''mute'', JBool True)])])]"
  using moderate_posts_once
          [where options = "\<lparr>videoUrl = Some ''https://x/video.mp4'', gcsUri = None,
                               filePath = None, title = None, tier = None, settings = None\<rparr>"
             and c = sample_client and w = "idle\<lparr>net := [Resolves 10 (ok_response JNull)]\<rparr>"]
  by (auto simp: falsy_str_def str_val_def idle_def)

text \<open>
  C9 as stated fails on a title the caller supplies as the empty string: it is not passed
  through, the body carries the placeholder.
\<close>

theorem empty_title_replaced:
  "map body (sent (snd (moderate sample_client
       \<lparr>videoUrl = Some ''https://x/video.mp4'', gcsUri = None, filePath = None, title = Some [],
        tier = Some Premium, settings = None\<rparr> idle))) =
   [Some (JObj [(''title'', JStr ''SDK Upload''), (''videoUrl'', JStr ''https://x/video.mp4''),
                (''gcsUri'', JUndef), (''filePath'', JUndef), (''tier'', JStr ''premium''),
                (''settings'', JObj [(''blur'', JBool True), (''mute'', JBool True)])])] \<and>
   map body (sent (snd (moderate sample_client
       \<lparr>videoUrl = Some ''https://x/video.mp4'', gcsUri = None, filePath = None, title = Some [],
        tier = Some Premium, settings = None\<rparr> idle))) \<noteq>
   [Some (JObj [(''title'', JStr []), (''videoUrl'', JStr ''https://x/video.mp4''),
                (''gcsUri'', JUndef), (''filePath'', JUndef), (''tier'', JStr ''premium''),
                (''settings'', JObj [(''blur'', JBool True), (''mute'', JBool True)])])]"
  by (simp add: moderate_def falsy_str_def request_sent moderate_body_def str_or_def str_val_def
        idle_def)

section \<open>Fetching a job's status\<close>

lemma getJobStatus_world:
  "snd (getJobStatus c jobId w) =
   snd (request c (''/rest/v1/moderation_jobs?id=eq.'' @ jobId @ ''&select=*'') ''GET'' None w)"
  by (simp add: getJobStatus_def split: prod.split sum.split)

lemma indexed_first: "lookup (indexed (x # rest)) ''0'' = x"
proof -
  have "indexed (x # rest) = (show_nat 0, x) # zip (map show_nat [Suc 0..<Suc (length rest)]) rest"
    unfolding indexed_def by (simp add: upt_conv_Cons del: upt_Suc)
  moreover have "show_nat 0 = ''0''"
    by (simp add: show_nat.simps digit_char_def)
  ultimately show ?thesis by (simp add: lookup_def)
qed





section \<open>The polling loop\<close>

lemma getJobStatus_frame:
  assumes "getJobStatus c jobId w = (r, w')"
  shows "length (sent w') = Suc (length (sent w))" and "naps w' = naps w" and "lag w' = lag w"
    and "net w' = net w" and "now w \<le> now w'"
proof -
  have "w' = snd (request c (''/rest/v1/moderation_jobs?id=eq.'' @ jobId @ ''&select=*'') ''GET'' None w)"
    using assms getJobStatus_world [of c jobId w] by simp
  then show "length (sent w') = Suc (length (sent w))" and "naps w' = naps w" and "lag w' = lag w"
    and "net w' = net w" and "now w \<le> now w'"
    by (simp_all add: request_sent request_frame)
qed

lemma sleep_frame:
  "sent (sleep ms w) = sent w" "naps (sleep ms w) = naps w @ [ms]" "net (sleep ms w) = net w"
  "lag (sleep ms w) = lag w"
  by (simp_all add: sleep_def tick_def)







lemma poll_trace:
  assumes "poll c jobId M P start w = Some y"
  shows "trace_ok c jobId P w y"
proof (rule poll.raw_induct [where P = "\<lambda>c jobId M P start w y. trace_ok c jobId P w y", OF _ assms])
  fix f c jobId M P start w y
  assume IH: "\<And>c jobId M P start w y. f c jobId M P start w = Some y \<Longrightarrow> trace_ok c jobId P w y"
    and body: "(if of_int (now w - start) < M
      then case getJobStatus c jobId w of
           (Inl t, w') \<Rightarrow> Some (Propagated t, w')
           | (Inr j, w') \<Rightarrow>
               if terminal (status j) then Some (Returned j, w')
               else f c jobId M P start (sleep P w')
      else Some (TimedOut, w)) = Some y"
  show "trace_ok c jobId P w y"
  proof (cases "of_int (now w - start) < M")
    case False
    with body have "y = (TimedOut, w)" by simp
    then show ?thesis by (simp add: trace_ok_def)
  next
    case True
    obtain r w1 where g: "getJobStatus c jobId w = (r, w1)" by (cases "getJobStatus c jobId w")
    note fr = getJobStatus_frame [OF g]
    show ?thesis
    proof (cases r)
      case (Inl t)
      with True g body have "y = (Propagated t, w1)" by simp
      with g Inl fr show ?thesis
        unfolding trace_ok_def by (intro exI [of _ 1]) auto
    next
      case (Inr j)
      show ?thesis
      proof (cases "terminal (status j)")
        case t: True
        with True g Inr body have "y = (Returned j, w1)" by simp
        with g Inr fr t show ?thesis
          unfolding trace_ok_def by (intro exI [of _ 1]) auto
      next
        case False
        with True g Inr body have "f c jobId M P start (sleep P w1) = Some y" by simp
        then have "trace_ok c jobId P (sleep P w1) y" by (rule IH)
        then obtain n where
          len: "length (sent (snd y)) = length (sent (sleep P w1)) + n" and
          out: "(case fst y of
              Returned j \<Rightarrow> 0 < n \<and> naps (snd y) = naps (sleep P w1) @ replicate (n - 1) P \<and>
                terminal (status j) \<and> (\<exists>ws. getJobStatus c jobId ws = (Inr j, snd y))
            | TimedOut \<Rightarrow> naps (snd y) = naps (sleep P w1) @ replicate n P
            | Propagated t \<Rightarrow> 0 < n \<and> naps (snd y) = naps (sleep P w1) @ replicate (n - 1) P \<and>
                (\<exists>ws. getJobStatus c jobId ws = (Inl t, snd y)))"
          unfolding trace_ok_def by blast
        have shift: "naps (sleep P w1) @ replicate k P = naps w @ replicate (Suc k) P" for k
          using fr(2) by (simp add: sleep_frame)
        have len': "length (sent (snd y)) = length (sent w) + Suc n"
          using len fr(1) by (simp add: sleep_frame)
        have "(case fst y of
              Returned j \<Rightarrow> 0 < Suc n \<and> naps (snd y) = naps w @ replicate (Suc n - 1) P \<and>
                terminal (status j) \<and> (\<exists>ws. getJobStatus c jobId ws = (Inr j, snd y))
            | TimedOut \<Rightarrow> naps (snd y) = naps w @ replicate (Suc n) P
            | Propagated t \<Rightarrow> 0 < Suc n \<and> naps (snd y) = naps w @ replicate (Suc n - 1) P \<and>
                (\<exists>ws. getJobStatus c jobId ws = (Inl t, snd y)))"
        proof (cases "fst y")
          case (Returned j')
          with out have "0 < n" and "naps (snd y) = naps (sleep P w1) @ replicate (n - 1) P" by simp_all
          then have "naps (snd y) = naps w @ replicate n P"
            using shift [of "n - 1"] by simp
          with out Returned show ?thesis by simp
        next
          case TimedOut
          with out shift [of n] show ?thesis by simp
        next
          case (Propagated t')
          with out have "0 < n" and "naps (snd y) = naps (sleep P w1) @ replicate (n - 1) P" by simp_all
          then have "naps (snd y) = naps w @ replicate n P"
            using shift [of "n - 1"] by simp
          with out Propagated show ?thesis by simp
        qed
        with len' show ?thesis unfolding trace_ok_def by blast
      qed
    qed
  qed
qed

lemma waitForCompletion_poll:
  "waitForCompletion c jobId options w =
     map_option (\<lambda>(e, w'). (finish jobId (num_or (maxWait options) 300000) e, w'))
       (poll c jobId (num_or (maxWait options) 300000) (num_or (pollInterval options) 5000) (now w) w)"
  by (simp add: waitForCompletion_def Let_def)


text \<open>Running the loop on the sample network.\<close>

lemma lookup_simps:
  "lookup [] k = JUndef" "lookup ((k', v) # kvs) k = (if k = k' then v else lookup kvs k)"
  by (simp_all add: lookup_def)

lemmas run_defs = lookup_simps
  getJobStatus_def request_def Let_def reply_def idle_def setTimeout_def sample_client_def
  ok_response_def delay_ms_def ok_def tick_def clearTimeout_def sleep_def lateness_def
  terminal_def remap_def peek_def indexed_first wire_job_def two_polls_def num_or_def

lemma two_polls_result:
  "waitForCompletion sample_client ''job-1'' \<lparr>maxWait = None, pollInterval = None\<rparr> two_polls =
     Some (Inr moderated_job, after_two_polls)"
  unfolding waitForCompletion_poll
  by (subst poll.simps, simp add: run_defs, subst poll.simps,
      simp add: run_defs after_two_polls_def status_call_def moderated_job_def)






text \<open>
  Seen from the end of a call that made \<open>n\<close> status fetches: a job returned is the result
  of the last fetch and has a terminal status, an error passed on is the one the last
  fetch raised, and in both cases the call has slept \<open>n - 1\<close> times, each time for the poll
  interval; a call that ends on its max-wait has slept \<open>n\<close> times.
\<close>

theorem waitForCompletion_trace:
  assumes "waitForCompletion c jobId options w = Some (r, w')"
      and "M = num_or (maxWait options) 300000" and "P = num_or (pollInterval options) 5000"
  shows "\<exists>e n. r = finish jobId M e \<and> length (sent w') = length (sent w) + n \<and>
           (case e of
              Returned j \<Rightarrow>
                0 < n \<and> naps w' = naps w @ replicate (n - 1) P \<and> terminal (status j) \<and>
                (\<exists>ws. getJobStatus c jobId ws = (Inr j, w'))
            | TimedOut \<Rightarrow> naps w' = naps w @ replicate n P
            | Propagated t \<Rightarrow>
                0 < n \<and> naps w' = naps w @ replicate (n - 1) P \<and>
                (\<exists>ws. getJobStatus c jobId ws = (Inl t, w')))"
proof -
  from assms obtain e where
    run: "poll c jobId M P (now w) w = Some (e, w')" and r: "r = finish jobId M e"
    by (auto simp: waitForCompletion_poll)
  from poll_trace [OF run] obtain n where
    "length (sent w') = length (sent w) + n" and
    "(case e of
              Returned j \<Rightarrow>
                0 < n \<and> naps w' = naps w @ replicate (n - 1) P \<and> terminal (status j) \<and>
                (\<exists>ws. getJobStatus c jobId ws = (Inr j, w'))
            | TimedOut \<Rightarrow> naps w' = naps w @ replicate n P
            | Propagated t \<Rightarrow>
                0 < n \<and> naps w' = naps w @ replicate (n - 1) P \<and>
                (\<exists>ws. getJobStatus c jobId ws = (Inl t, w')))"
    by (cases e) (auto simp: trace_ok_def)
  with r show ?thesis by blast
qed

theorem waitForCompletion_trace_witness:
  "\<exists>e n. Inr moderated_job = finish ''job-1'' 300000 e \<and>
         length (sent after_two_polls) = length (sent two_polls) + n \<and>
         (case e of
            Returned j \<Rightarrow>
              0 < n \<and> naps after_two_polls = naps two_polls @ replicate (n - 1) 5000 \<and>
              terminal (status j) \<and>
              (\<exists>ws. getJobStatus sample_client ''job-1'' ws = (Inr j, after_two_polls))
          | TimedOut \<Rightarrow> naps after_two_polls = naps two_polls @ replicate n 5000
          | Propagated t \<Rightarrow>
              0 < n \<and> naps after_two_polls = naps two_polls @ replicate (n - 1) 5000 \<and>
              (\<exists>ws. getJobStatus sample_client ''job-1'' ws = (Inl t, after_two_polls)))"
  using waitForCompletion_trace [OF two_polls_result, where M = 300000 and P = 5000]
  by (simp add: num_or_def)

text \<open>
  An error body that decodes to \<open>null\<close>: reading its \<open>error\<close> property throws inside the
  handler, and \<open>request\<close> turns that into a Network error, whatever the status.
\<close>

theorem null_body_network_error:
  "fst (request sample_client ''/functions/v1/public-metrics'' ''GET'' None
          (idle\<lparr>net := [Resolves 10 (error_response 500 [] JNull)]\<rparr>))
     = Inl (Sdk \<lparr>cls = NetworkError, code = ''NETWORK_ERROR'',
                  message = [EngineTxt ''error''], details = JUndef\<rparr>)"
  by (simp add: request_def Let_def reply_def idle_def setTimeout_def sample_client_def
        error_response_def delay_ms_def ok_def tick_def clearTimeout_def request_catch_def
        handleErrorResponse_def TypeError_def new_NetworkError_def)

end
